theory Spec2Isabelle
  imports Complex_Main
begin

section \<open>The accounting engine of \<^verbatim>\<open>src/lib/calculations.ts\<close>\<close>

text \<open>
  The engine is a set of pure functions over a snapshot of the ledger. This theory
  embeds them function by function.

  \<^item> A TypeScript \<^verbatim>\<open>number\<close> is modelled as an exact rational (\<^typ>\<open>rat\<close>): every
    result below is a result of exact arithmetic on finite numbers; rounding, infinities
    and NaN inputs of IEEE doubles are outside the model.
  \<^item> An id is a \<^typ>\<open>string\<close>.
  \<^item> A JavaScript \<^verbatim>\<open>Map\<close> is an association list with distinct keys in insertion
    order: \<^verbatim>\<open>set\<close> on a present key replaces the value in place, on an absent key
    appends the entry; \<^verbatim>\<open>forEach\<close> visits the entries in list order.
  \<^item> Reading a property of \<^verbatim>\<open>undefined\<close> throws a \<^verbatim>\<open>TypeError\<close>; a function that
    can throw returns \<open>error + 'a\<close>, with \<open>Inl\<close> for the throw.
  \<^item> Record fields carry a prefix naming their interface, since several interfaces of
    \<^verbatim>\<open>types\<close> share field names (\<^verbatim>\<open>id\<close>, \<^verbatim>\<open>member_id\<close>, \<^verbatim>\<open>amount\<close>). Fields that
    \<^verbatim>\<open>calculations.ts\<close> never reads (dates, notes, timestamps, email) are left out.
\<close>

subsection \<open>Data model\<close>

type_synonym number = rat

datatype TransactionType = Buy | Sell

record FamilyMember =
  fm_id :: string
  fm_name :: string

record Contribution =
  c_id :: string
  c_member_id :: string
  c_amount :: number

record Stock =
  s_id :: string
  s_symbol :: string
  s_name :: string
  s_current_price :: "number option"

record Transaction =
  t_id :: string
  t_stock_id :: string
  t_type :: TransactionType
  t_quantity :: number
  t_price_per_share :: number
  t_total_amount :: number

record TransactionAllocation =
  a_id :: string
  a_transaction_id :: string
  a_member_id :: string
  a_amount :: number
  a_percentage :: number

record MemberCashPool =
  member_id :: string
  member_name :: string
  total_contributions :: number
  total_buys :: number
  total_sells :: number
  available_cash :: number

record CalculationData =
  members :: "FamilyMember list"
  contributions :: "Contribution list"
  stocks :: "Stock list"
  transactions :: "Transaction list"
  allocations :: "TransactionAllocation list"

text \<open>What a call can end with instead of a result. \<open>TypeError\<close> is what the JavaScript
  runtime throws when a property of \<^verbatim>\<open>undefined\<close> is read. \<open>ReferenceNotFound kind id\<close>
  is the structured failure that the specification names; no function of
  \<^verbatim>\<open>calculations.ts\<close> constructs it.\<close>

datatype error = TypeError | ReferenceNotFound string string

subsection \<open>JavaScript maps\<close>

type_synonym ('k, 'v) Map = "('k \<times> 'v) list"

primrec Map_set :: "'k \<Rightarrow> 'v \<Rightarrow> ('k, 'v) Map \<Rightarrow> ('k, 'v) Map" where
  "Map_set k v [] = [(k, v)]"
| "Map_set k v (e # es) = (if fst e = k then (k, v) # es else e # Map_set k v es)"

definition Map_get :: "('k, 'v) Map \<Rightarrow> 'k \<Rightarrow> 'v option" where
  "Map_get m k = map_of m k"

definition Map_has :: "('k, 'v) Map \<Rightarrow> 'k \<Rightarrow> bool" where
  "Map_has m k = (Map_get m k \<noteq> None)"

text \<open>\<^verbatim>\<open>x || 0\<close> on a number that may be \<^verbatim>\<open>undefined\<close> or \<^verbatim>\<open>null\<close>: the number
  itself unless it is missing (a present 0 gives 0 either way).\<close>

definition or0 :: "number option \<Rightarrow> number" where
  "or0 x = (case x of None \<Rightarrow> 0 | Some v \<Rightarrow> v)"

text \<open>\<^verbatim>\<open>xs.reduce((sum, x) => sum + f(x), 0)\<close>.\<close>

definition reduce_sum :: "('a \<Rightarrow> number) \<Rightarrow> 'a list \<Rightarrow> number" where
  "reduce_sum f xs = foldl (\<lambda>sum x. sum + f x) 0 xs"

subsection \<open>calculateMemberCash\<close>

definition transactionIds :: "TransactionType \<Rightarrow> CalculationData \<Rightarrow> string set" where
  "transactionIds ty d = set (map t_id (filter (\<lambda>t. t_type t = ty) (transactions d)))"

definition memberCashPool :: "CalculationData \<Rightarrow> FamilyMember \<Rightarrow> MemberCashPool" where
  "memberCashPool d member =
    (let totalContributions =
           reduce_sum c_amount (filter (\<lambda>c. c_member_id c = fm_id member) (contributions d));
         buyTransactionIds = transactionIds Buy d;
         totalBuys =
           reduce_sum a_amount
             (filter (\<lambda>a. a_member_id a = fm_id member \<and> a_transaction_id a \<in> buyTransactionIds)
                (allocations d));
         sellTransactionIds = transactionIds Sell d;
         totalSells =
           reduce_sum a_amount
             (filter (\<lambda>a. a_member_id a = fm_id member \<and> a_transaction_id a \<in> sellTransactionIds)
                (allocations d))
     in \<lparr> member_id = fm_id member,
          member_name = fm_name member,
          total_contributions = totalContributions,
          total_buys = totalBuys,
          total_sells = totalSells,
          available_cash = totalContributions - totalBuys + totalSells \<rparr>)"

definition calculateMemberCash :: "CalculationData \<Rightarrow> (string, MemberCashPool) Map" where
  "calculateMemberCash d =
    foldl (\<lambda>cashMap member. Map_set (fm_id member) (memberCashPool d member) cashMap)
      [] (members d)"

text \<open>The words of the specification: an allocation is on a transaction of a given type
  when some transaction of the snapshot with the allocation's transaction id has that type.\<close>

definition on_type :: "CalculationData \<Rightarrow> TransactionType \<Rightarrow> TransactionAllocation \<Rightarrow> bool" where
  "on_type d ty a = (\<exists>t \<in> set (transactions d). t_id t = a_transaction_id a \<and> t_type t = ty)"

subsection \<open>calculateMemberShares\<close>

text \<open>\<^verbatim>\<open>xs.forEach(f)\<close> where the callback updates a state and may throw: the first
  throw ends the loop.\<close>

fun forEach_throw :: "('s \<Rightarrow> 'a \<Rightarrow> error + 's) \<Rightarrow> 's \<Rightarrow> 'a list \<Rightarrow> error + 's" where
  "forEach_throw f s [] = Inr s"
| "forEach_throw f s (x # xs) =
     (case f s x of Inl e \<Rightarrow> Inl e | Inr s' \<Rightarrow> forEach_throw f s' xs)"

text \<open>Map: memberId -> stockId -> number.\<close>

type_synonym NestedMap = "(string, (string, number) Map) Map"

text \<open>The body of the inner loop. \<^verbatim>\<open>sharesMap.get(allocation.member_id)!\<close> is
  \<^verbatim>\<open>undefined\<close> for an unknown member, and the call of \<^verbatim>\<open>get\<close> on it throws. The
  member's inner map is mutated in place: its entry of the outer map keeps its position.\<close>

definition addAllocationShares ::
  "Transaction \<Rightarrow> NestedMap \<Rightarrow> TransactionAllocation \<Rightarrow> error + NestedMap" where
  "addAllocationShares transaction sharesMap allocation =
    (case Map_get sharesMap (a_member_id allocation) of
       None \<Rightarrow> Inl TypeError
     | Some memberShares \<Rightarrow>
         (let currentShares = or0 (Map_get memberShares (t_stock_id transaction));
              sharesForAllocation = t_quantity transaction * a_percentage allocation
          in Inr (Map_set (a_member_id allocation)
                (Map_set (t_stock_id transaction)
                   (if t_type transaction = Buy
                    then currentShares + sharesForAllocation
                    else currentShares - sharesForAllocation)
                   memberShares)
                sharesMap)))"

definition addTransactionShares ::
  "CalculationData \<Rightarrow> NestedMap \<Rightarrow> Transaction \<Rightarrow> error + NestedMap" where
  "addTransactionShares d sharesMap transaction =
    (let transactionAllocations =
           filter (\<lambda>a. a_transaction_id a = t_id transaction) (allocations d)
     in forEach_throw (addAllocationShares transaction) sharesMap transactionAllocations)"

definition initialShares :: "FamilyMember list \<Rightarrow> NestedMap" where
  "initialShares ms = foldl (\<lambda>sharesMap member. Map_set (fm_id member) [] sharesMap) [] ms"

definition calculateMemberShares :: "CalculationData \<Rightarrow> error + NestedMap" where
  "calculateMemberShares d =
    forEach_throw (addTransactionShares d) (initialShares (members d)) (transactions d)"

subsection \<open>calculateCostBasis\<close>

text \<open>The body of the loop over the allocations. An allocation whose transaction is not
  found is skipped. A member without an entry gets a new inner map, appended to the outer
  map; the lookup marked \<^verbatim>\<open>!\<close> then finds an entry in either case, and the inner map is
  mutated in place.\<close>

definition addAllocationCost ::
  "CalculationData \<Rightarrow> NestedMap \<Rightarrow> TransactionAllocation \<Rightarrow> NestedMap" where
  "addAllocationCost d costBasisMap allocation =
    (case List.find (\<lambda>t. t_id t = a_transaction_id allocation) (transactions d) of
       None \<Rightarrow> costBasisMap
     | Some transaction \<Rightarrow>
         (let costBasisMap' =
                (if \<not> Map_has costBasisMap (a_member_id allocation)
                 then Map_set (a_member_id allocation) [] costBasisMap
                 else costBasisMap);
              memberCostBasis =
                (case Map_get costBasisMap' (a_member_id allocation) of
                   None \<Rightarrow> [] | Some m \<Rightarrow> m);
              currentCostBasis = or0 (Map_get memberCostBasis (t_stock_id transaction))
          in Map_set (a_member_id allocation)
               (Map_set (t_stock_id transaction)
                  (if t_type transaction = Buy
                   then currentCostBasis + a_amount allocation
                   else currentCostBasis - a_amount allocation)
                  memberCostBasis)
               costBasisMap'))"

definition calculateCostBasis :: "CalculationData \<Rightarrow> NestedMap" where
  "calculateCostBasis d = foldl (addAllocationCost d) [] (allocations d)"

subsection \<open>calculatePortfolioSummary\<close>

record MemberPortfolioSummary =
  memberId :: string
  memberName :: string
  totalContributions :: number
  currentStockValue :: number
  availableCash :: number
  totalValue :: number
  costBasis :: number
  gainLoss :: number
  gainLossPercentage :: number
  ownershipPercentage :: number

record PortfolioSummary =
  p_totalValue :: number
  p_totalCostBasis :: number
  p_totalGainLoss :: number
  p_totalGainLossPercentage :: number
  p_totalCash :: number
  p_memberBreakdown :: "MemberPortfolioSummary list"

text \<open>The loop over the stocks inside the callback of \<^verbatim>\<open>members.map\<close>: the pair is
  (\<^verbatim>\<open>currentStockValue\<close>, \<^verbatim>\<open>memberTotalCostBasis\<close>).\<close>

definition stockTotals ::
  "(string, number) Map \<Rightarrow> (string, number) Map \<Rightarrow> Stock list \<Rightarrow> number \<times> number" where
  "stockTotals shares memberCostBasisMap ss =
    foldl (\<lambda>(currentStockValue, memberTotalCostBasis) stock.
        (let sharesOwned = or0 (Map_get shares (s_id stock));
             price = or0 (s_current_price stock)
         in (currentStockValue + sharesOwned * price,
             memberTotalCostBasis + or0 (Map_get memberCostBasisMap (s_id stock)))))
      (0, 0) ss"

text \<open>The callback of \<^verbatim>\<open>members.map\<close>. The two lookups marked \<^verbatim>\<open>!\<close> in the source
  give \<^verbatim>\<open>undefined\<close> on a missing key, whose use throws.\<close>

definition memberSummary ::
  "CalculationData \<Rightarrow> (string, MemberCashPool) Map \<Rightarrow> NestedMap \<Rightarrow> NestedMap \<Rightarrow>
   FamilyMember \<Rightarrow> error + MemberPortfolioSummary" where
  "memberSummary d memberCash memberShares costBasisMap member =
    (case Map_get memberCash (fm_id member) of
       None \<Rightarrow> Inl TypeError
     | Some cash \<Rightarrow>
    (case Map_get memberShares (fm_id member) of
       None \<Rightarrow> Inl TypeError
     | Some shares \<Rightarrow>
        (let memberCostBasisMap =
               (case Map_get costBasisMap (fm_id member) of None \<Rightarrow> [] | Some m \<Rightarrow> m);
             (currentStockValue, memberTotalCostBasis) =
               stockTotals shares memberCostBasisMap (stocks d);
             totalValue = currentStockValue + available_cash cash;
             gainLoss = currentStockValue - memberTotalCostBasis;
             gainLossPercentage =
               (if memberTotalCostBasis > 0 then (gainLoss / memberTotalCostBasis) * 100 else 0)
         in Inr \<lparr> memberId = fm_id member,
                  memberName = fm_name member,
                  totalContributions = total_contributions cash,
                  currentStockValue = currentStockValue,
                  availableCash = available_cash cash,
                  totalValue = totalValue,
                  costBasis = memberTotalCostBasis,
                  gainLoss = gainLoss,
                  gainLossPercentage = gainLossPercentage,
                  ownershipPercentage = 0 \<rparr>)))"

text \<open>\<^verbatim>\<open>members.map\<close>, whose callback also adds the member's cash to \<^verbatim>\<open>totalCash\<close>.\<close>

fun mapMembers ::
  "(FamilyMember \<Rightarrow> error + MemberPortfolioSummary) \<Rightarrow> number \<Rightarrow> FamilyMember list \<Rightarrow>
   error + (number \<times> MemberPortfolioSummary list)" where
  "mapMembers f totalCash [] = Inr (totalCash, [])"
| "mapMembers f totalCash (member # ms) =
    (case f member of
       Inl e \<Rightarrow> Inl e
     | Inr s \<Rightarrow>
        (case mapMembers f (totalCash + availableCash s) ms of
           Inl e \<Rightarrow> Inl e
         | Inr (totalCash', ss) \<Rightarrow> Inr (totalCash', s # ss)))"

definition calculatePortfolioSummary :: "CalculationData \<Rightarrow> error + PortfolioSummary" where
  "calculatePortfolioSummary d =
    (let memberCash = calculateMemberCash d in
     case calculateMemberShares d of
       Inl e \<Rightarrow> Inl e
     | Inr memberShares \<Rightarrow>
    (let costBasisMap = calculateCostBasis d in
     case mapMembers (memberSummary d memberCash memberShares costBasisMap) 0 (members d) of
       Inl e \<Rightarrow> Inl e
     | Inr (totalCash, memberBreakdown) \<Rightarrow>
        (let totalValue' = reduce_sum totalValue memberBreakdown;
             totalCostBasis = reduce_sum costBasis memberBreakdown;
             memberBreakdown' =
               map (\<lambda>member. member\<lparr> ownershipPercentage :=
                      (if totalValue' > 0 then (totalValue member / totalValue') * 100 else 0) \<rparr>)
                 memberBreakdown;
             totalGainLoss = totalValue' - totalCash - totalCostBasis
         in Inr \<lparr> p_totalValue = totalValue',
                  p_totalCostBasis = totalCostBasis,
                  p_totalGainLoss = totalGainLoss,
                  p_totalGainLossPercentage =
                    (if totalCostBasis > 0 then (totalGainLoss / totalCostBasis) * 100 else 0),
                  p_totalCash = totalCash,
                  p_memberBreakdown = memberBreakdown' \<rparr>)))"

subsection \<open>calculateStockWithOwnership\<close>

record MemberOwnership =
  mo_memberId :: string
  mo_memberName :: string
  mo_shares :: number
  mo_value :: number
  mo_percentage :: number

record StockWithOwnership = Stock +
  sharesOwned :: number
  currentValue :: number
  so_costBasis :: number
  so_gainLoss :: number
  so_gainLossPercentage :: number
  memberOwnership :: "MemberOwnership list"

text \<open>\<^verbatim>\<open>m.get(memberId)?.get(stockId) || 0\<close>.\<close>

definition get2_or0 :: "NestedMap \<Rightarrow> string \<Rightarrow> string \<Rightarrow> number" where
  "get2_or0 m mId stockId =
    or0 (case Map_get m mId of None \<Rightarrow> None | Some inner \<Rightarrow> Map_get inner stockId)"

text \<open>The body of the loop over the members: the state is
  (\<^verbatim>\<open>totalShares\<close>, \<^verbatim>\<open>totalCostBasis\<close>, \<^verbatim>\<open>memberOwnership\<close>).\<close>

definition addMemberOwnership ::
  "Stock \<Rightarrow> NestedMap \<Rightarrow> NestedMap \<Rightarrow> number \<times> number \<times> MemberOwnership list \<Rightarrow>
   FamilyMember \<Rightarrow> number \<times> number \<times> MemberOwnership list" where
  "addMemberOwnership stock memberShares costBasisMap st member =
    (case st of (totalShares, totalCostBasis, ownership) \<Rightarrow>
      (let shares = get2_or0 memberShares (fm_id member) (s_id stock);
           memberCostBasis = get2_or0 costBasisMap (fm_id member) (s_id stock);
           val = shares * or0 (s_current_price stock)
       in if shares > 0
          then (totalShares + shares, totalCostBasis + memberCostBasis,
                ownership @ [\<lparr> mo_memberId = fm_id member,
                               mo_memberName = fm_name member,
                               mo_shares = shares,
                               mo_value = val,
                               mo_percentage = 0 \<rparr>])
          else (totalShares, totalCostBasis, ownership)))"

definition calculateStockWithOwnership ::
  "Stock \<Rightarrow> CalculationData \<Rightarrow> error + StockWithOwnership" where
  "calculateStockWithOwnership stock d =
    (case calculateMemberShares d of
       Inl e \<Rightarrow> Inl e
     | Inr memberShares \<Rightarrow>
        (let costBasisMap = calculateCostBasis d in
         case foldl (addMemberOwnership stock memberShares costBasisMap) (0, 0, []) (members d) of
           (totalShares, totalCostBasis, ownership) \<Rightarrow>
             (let ownership' =
                    map (\<lambda>mo. mo\<lparr> mo_percentage :=
                           (if totalShares > 0 then (mo_shares mo / totalShares) * 100 else 0) \<rparr>)
                      ownership;
                  currentValue' = totalShares * or0 (s_current_price stock);
                  gainLoss' = currentValue' - totalCostBasis
              in Inr \<lparr> s_id = s_id stock,
                       s_symbol = s_symbol stock,
                       s_name = s_name stock,
                       s_current_price = s_current_price stock,
                       sharesOwned = totalShares,
                       currentValue = currentValue',
                       so_costBasis = totalCostBasis,
                       so_gainLoss = gainLoss',
                       so_gainLossPercentage =
                         (if totalCostBasis > 0 then (gainLoss' / totalCostBasis) * 100 else 0),
                       memberOwnership = ownership' \<rparr>)))"

subsection \<open>calculateSellAllocations\<close>

record SellAllocation =
  sa_member_id :: string
  sa_amount :: number
  sa_percentage :: number

definition totalSharesOf :: "string \<Rightarrow> NestedMap \<Rightarrow> number" where
  "totalSharesOf stockId memberShares =
    foldl (\<lambda>totalShares (mId, stockMap). totalShares + or0 (Map_get stockMap stockId))
      0 memberShares"

definition calculateSellAllocations ::
  "string \<Rightarrow> number \<Rightarrow> number \<Rightarrow> CalculationData \<Rightarrow> error + SellAllocation list" where
  "calculateSellAllocations stockId quantity pricePerShare d =
    (case calculateMemberShares d of
       Inl e \<Rightarrow> Inl e
     | Inr memberShares \<Rightarrow>
        (let totalShares = totalSharesOf stockId memberShares in
         if totalShares = 0 then Inr []
         else
          (let totalAmount = quantity * pricePerShare
           in Inr (foldl (\<lambda>allocs (mId, stockMap).
                     (let shares = or0 (Map_get stockMap stockId)
                      in if shares > 0
                         then (let percentage = shares / totalShares
                               in allocs @ [\<lparr> sa_member_id = mId,
                                              sa_amount = totalAmount * percentage,
                                              sa_percentage = percentage \<rparr>])
                         else allocs))
                    [] memberShares))))"

subsection \<open>Vocabulary of the properties\<close>

text \<open>The keys of the shares map: the member ids of the snapshot, each once, in the order
  of their first appearance.\<close>

definition memberIds :: "CalculationData \<Rightarrow> string list" where
  "memberIds d = rev (remdups (rev (map fm_id (members d))))"

text \<open>Every allocation of a transaction of the snapshot names a member of the snapshot.\<close>

definition memberRefsOk :: "CalculationData \<Rightarrow> bool" where
  "memberRefsOk d =
    (\<forall>t \<in> set (transactions d). \<forall>a \<in> set (allocations d).
       a_transaction_id a = t_id t \<longrightarrow> a_member_id a \<in> fm_id ` set (members d))"

text \<open>The words of the specification for the share counts: every allocation of a transaction
  moves the transaction's quantity times the allocation's percentage, to the member for a
  buy and from the member for a sell; a member's net share count of a security is the
  sum of these moves over the transactions of the snapshot and their allocations.\<close>

definition sharesDelta :: "string \<Rightarrow> string \<Rightarrow> Transaction \<Rightarrow> TransactionAllocation \<Rightarrow> number" where
  "sharesDelta mId stockId t a =
    (if a_member_id a = mId \<and> t_stock_id t = stockId
     then (if t_type t = Buy then t_quantity t * a_percentage a
           else - (t_quantity t * a_percentage a))
     else 0)"

definition netShares :: "CalculationData \<Rightarrow> string \<Rightarrow> string \<Rightarrow> number" where
  "netShares d mId stockId =
    sum_list (map (\<lambda>t. sum_list (map (sharesDelta mId stockId t)
                        (filter (\<lambda>a. a_transaction_id a = t_id t) (allocations d))))
      (transactions d))"

text \<open>An allocation whose transaction id is the id of a transaction of the snapshot, and the
  snapshot without the other allocations.\<close>

definition knownTransaction :: "CalculationData \<Rightarrow> TransactionAllocation \<Rightarrow> bool" where
  "knownTransaction d a = (\<exists>t \<in> set (transactions d). t_id t = a_transaction_id a)"

definition dropDangling :: "CalculationData \<Rightarrow> CalculationData" where
  "dropDangling d = d\<lparr> allocations := filter (knownTransaction d) (allocations d) \<rparr>"

text \<open>The snapshot with every unknown price replaced by the price 0.\<close>

definition nullPricesAsZero :: "CalculationData \<Rightarrow> CalculationData" where
  "nullPricesAsZero d =
    d\<lparr> stocks := map (\<lambda>stock. stock\<lparr> s_current_price := Some (or0 (s_current_price stock)) \<rparr>)
                   (stocks d) \<rparr>"

subsection \<open>Example snapshots\<close>

text \<open>The scenario of the specification: A and B contribute 1000 each; a buy of 10 shares
  of X at 100 is allocated 600 to A and 400 to B; the current price of X is 120.\<close>

definition stockX :: Stock where
  "stockX = \<lparr> s_id = ''X'', s_symbol = ''X'', s_name = ''X'', s_current_price = Some 120 \<rparr>"

definition scenario :: CalculationData where
  "scenario =
    \<lparr> members = [\<lparr> fm_id = ''A'', fm_name = ''A'' \<rparr>, \<lparr> fm_id = ''B'', fm_name = ''B'' \<rparr>],
      contributions =
        [\<lparr> c_id = ''c1'', c_member_id = ''A'', c_amount = 1000 \<rparr>,
         \<lparr> c_id = ''c2'', c_member_id = ''B'', c_amount = 1000 \<rparr>],
      stocks = [stockX],
      transactions =
        [\<lparr> t_id = ''t1'', t_stock_id = ''X'', t_type = Buy, t_quantity = 10,
           t_price_per_share = 100, t_total_amount = 1000 \<rparr>],
      allocations =
        [\<lparr> a_id = ''a1'', a_transaction_id = ''t1'', a_member_id = ''A'',
           a_amount = 600, a_percentage = 6 / 10 \<rparr>,
         \<lparr> a_id = ''a2'', a_transaction_id = ''t1'', a_member_id = ''B'',
           a_amount = 400, a_percentage = 4 / 10 \<rparr>] \<rparr>"

text \<open>The scenario with a third member who has neither contributed nor been allocated
  anything.\<close>

definition scenarioIdle :: CalculationData where
  "scenarioIdle = scenario\<lparr> members := members scenario @ [\<lparr> fm_id = ''C'', fm_name = ''C'' \<rparr>] \<rparr>"

text \<open>The scenario with one more allocation, whose transaction id names no transaction.\<close>

definition scenarioDangling :: CalculationData where
  "scenarioDangling = scenario\<lparr> allocations := allocations scenario @
     [\<lparr> a_id = ''a3'', a_transaction_id = ''t9'', a_member_id = ''A'',
        a_amount = 50, a_percentage = 1 / 2 \<rparr>] \<rparr>"

text \<open>The scenario with one more allocation of the buy, whose member id names no member.\<close>

definition scenarioUnknownMember :: CalculationData where
  "scenarioUnknownMember = scenario\<lparr> allocations := allocations scenario @
     [\<lparr> a_id = ''a3'', a_transaction_id = ''t1'', a_member_id = ''Z'',
        a_amount = 50, a_percentage = 1 / 20 \<rparr>] \<rparr>"



text \<open>The scenario with the idle member, the price of X unknown.\<close>

definition scenarioNoPrice :: CalculationData where
  "scenarioNoPrice = scenarioIdle\<lparr> stocks := [stockX\<lparr> s_current_price := None \<rparr>] \<rparr>"

text \<open>A buy of 10 shares of X allocated to A alone, and a sell of 4 shares of X allocated to B
  alone, who never bought: B holds - 4 shares.\<close>

definition scenarioShort :: CalculationData where
  "scenarioShort =
    \<lparr> members = [\<lparr> fm_id = ''A'', fm_name = ''A'' \<rparr>, \<lparr> fm_id = ''B'', fm_name = ''B'' \<rparr>],
      contributions =
        [\<lparr> c_id = ''c1'', c_member_id = ''A'', c_amount = 1000 \<rparr>,
         \<lparr> c_id = ''c2'', c_member_id = ''B'', c_amount = 1000 \<rparr>],
      stocks = [stockX],
      transactions =
        [\<lparr> t_id = ''t1'', t_stock_id = ''X'', t_type = Buy, t_quantity = 10,
           t_price_per_share = 100, t_total_amount = 1000 \<rparr>,
         \<lparr> t_id = ''t2'', t_stock_id = ''X'', t_type = Sell, t_quantity = 4,
           t_price_per_share = 100, t_total_amount = 400 \<rparr>],
      allocations =
        [\<lparr> a_id = ''a1'', a_transaction_id = ''t1'', a_member_id = ''A'',
           a_amount = 1000, a_percentage = 1 \<rparr>,
         \<lparr> a_id = ''a2'', a_transaction_id = ''t2'', a_member_id = ''B'',
           a_amount = 400, a_percentage = 1 \<rparr>] \<rparr>"

text \<open>The scenario with no stock at all: the buy names a security that is not there.\<close>

definition scenarioUnknownStock :: CalculationData where
  "scenarioUnknownStock = scenario\<lparr> stocks := [] \<rparr>"

section \<open>Properties\<close>

subsection \<open>Maps and sums\<close>

lemma Map_get_set: "Map_get (Map_set k v m) k' = (if k' = k then Some v else Map_get m k')"
  by (induction m) (auto simp: Map_get_def)

lemma keys_Map_set:
  "map fst (Map_set k v m) = (if k \<in> set (map fst m) then map fst m else map fst m @ [k])"
  by (induction m) auto

lemma reduce_sum_aux: "foldl (\<lambda>sum x. sum + f x) a xs = a + sum_list (map f xs)"
  by (induction xs arbitrary: a) (simp_all add: add.assoc)

lemma reduce_sum_eq: "reduce_sum f xs = sum_list (map f xs)"
  by (simp add: reduce_sum_def reduce_sum_aux)

subsection \<open>Cash per member\<close>

lemma on_type_iff: "a_transaction_id a \<in> transactionIds ty d \<longleftrightarrow> on_type d ty a"
  by (force simp: transactionIds_def on_type_def)

lemma calculateMemberCash_entry:
  "k \<in> fm_id ` set ms \<Longrightarrow>
   \<exists>m \<in> set ms. fm_id m = k \<and>
     Map_get (foldl (\<lambda>cashMap member. Map_set (fm_id member) (memberCashPool d member) cashMap)
        init ms) k = Some (memberCashPool d m)"
proof (induction ms rule: rev_induct)
  case Nil
  then show ?case by simp
next
  case (snoc x xs)
  show ?case
  proof (cases "fm_id x = k")
    case True
    then show ?thesis by (auto simp: Map_get_set)
  next
    case False
    with snoc.prems have "k \<in> fm_id ` set xs" by auto
    from snoc.IH [OF this] False show ?thesis by (auto simp: Map_get_set)
  qed
qed

text \<open>
  C3. Every member of the snapshot has an entry in the result of \<open>calculateMemberCash\<close>,
  whose available cash is the sum of the member's contribution amounts, minus the sum
  of the member's allocation amounts on buy transactions, plus the sum of the member's
  allocation amounts on sell transactions; a member with no contribution and no
  allocation has all four figures equal to 0. The function cannot fail.
\<close>

theorem calculateMemberCash_available_cash:
  assumes "m \<in> set (members d)"
  shows "\<exists>p. Map_get (calculateMemberCash d) (fm_id m) = Some p \<and>
    member_id p = fm_id m \<and>
    total_contributions p =
      sum_list (map c_amount (filter (\<lambda>c. c_member_id c = fm_id m) (contributions d))) \<and>
    total_buys p =
      sum_list (map a_amount
        (filter (\<lambda>a. a_member_id a = fm_id m \<and> on_type d Buy a) (allocations d))) \<and>
    total_sells p =
      sum_list (map a_amount
        (filter (\<lambda>a. a_member_id a = fm_id m \<and> on_type d Sell a) (allocations d))) \<and>
    available_cash p = total_contributions p - total_buys p + total_sells p \<and>
    ((\<forall>c \<in> set (contributions d). c_member_id c \<noteq> fm_id m) \<and>
     (\<forall>a \<in> set (allocations d). a_member_id a \<noteq> fm_id m) \<longrightarrow>
       total_contributions p = 0 \<and> total_buys p = 0 \<and> total_sells p = 0 \<and>
       available_cash p = 0)"
proof -
  from assms have "fm_id m \<in> fm_id ` set (members d)" by simp
  from calculateMemberCash_entry [OF this, of d "[]"]
  obtain m' where m': "m' \<in> set (members d)" "fm_id m' = fm_id m"
    and get: "Map_get (calculateMemberCash d) (fm_id m) = Some (memberCashPool d m')"
    by (auto simp: calculateMemberCash_def)
  let ?p = "memberCashPool d m'"
  have c: "total_contributions ?p =
      sum_list (map c_amount (filter (\<lambda>c. c_member_id c = fm_id m) (contributions d)))"
    by (simp add: memberCashPool_def Let_def reduce_sum_eq m')
  have b: "total_buys ?p = sum_list (map a_amount
        (filter (\<lambda>a. a_member_id a = fm_id m \<and> on_type d Buy a) (allocations d)))"
    by (simp add: memberCashPool_def Let_def reduce_sum_eq m' on_type_iff)
  have s: "total_sells ?p = sum_list (map a_amount
        (filter (\<lambda>a. a_member_id a = fm_id m \<and> on_type d Sell a) (allocations d)))"
    by (simp add: memberCashPool_def Let_def reduce_sum_eq m' on_type_iff)
  have a: "available_cash ?p = total_contributions ?p - total_buys ?p + total_sells ?p"
    by (simp add: memberCashPool_def Let_def)
  have i: "member_id ?p = fm_id m"
    by (simp add: memberCashPool_def Let_def m')
  have z: "total_contributions ?p = 0 \<and> total_buys ?p = 0 \<and> total_sells ?p = 0 \<and>
       available_cash ?p = 0"
    if "\<forall>c \<in> set (contributions d). c_member_id c \<noteq> fm_id m"
      and "\<forall>a \<in> set (allocations d). a_member_id a \<noteq> fm_id m"
  proof -
    from that(1) have "filter (\<lambda>c. c_member_id c = fm_id m) (contributions d) = []"
      by (simp add: filter_empty_conv)
    moreover from that(2) have
      "filter (\<lambda>a. a_member_id a = fm_id m \<and> on_type d ty a) (allocations d) = []" for ty
      by (simp add: filter_empty_conv)
    ultimately show ?thesis using a b c s by simp
  qed
  from get i c b s a z show ?thesis by blast
qed

theorem calculateMemberCash_available_cash_witness:
  "\<lparr> fm_id = ''A'', fm_name = ''A'' \<rparr> \<in> set (members scenarioIdle) \<and>
   (\<exists>p. Map_get (calculateMemberCash scenarioIdle) ''A'' = Some p \<and>
      total_contributions p = 1000 \<and> total_buys p = 600 \<and> total_sells p = 0 \<and>
      available_cash p = 400) \<and>
   \<lparr> fm_id = ''C'', fm_name = ''C'' \<rparr> \<in> set (members scenarioIdle) \<and>
   list_all (\<lambda>c. c_member_id c \<noteq> ''C'') (contributions scenarioIdle) \<and>
   list_all (\<lambda>a. a_member_id a \<noteq> ''C'') (allocations scenarioIdle) \<and>
   (\<exists>p. Map_get (calculateMemberCash scenarioIdle) ''C'' = Some p \<and>
      total_contributions p = 0 \<and> total_buys p = 0 \<and> total_sells p = 0 \<and>
      available_cash p = 0)"
proof -
  have mA: "\<lparr> fm_id = ''A'', fm_name = ''A'' \<rparr> \<in> set (members scenarioIdle)"
    by (simp add: scenarioIdle_def scenario_def)
  have eA: "fm_id \<lparr> fm_id = ''A'', fm_name = ''A'' \<rparr> = ''A''" by simp
  have cA: "sum_list (map c_amount
      (filter (\<lambda>c. c_member_id c = ''A'') (contributions scenarioIdle))) = 1000"
    by (simp add: scenarioIdle_def scenario_def)
  have bA: "sum_list (map a_amount
      (filter (\<lambda>a. a_member_id a = ''A'' \<and> on_type scenarioIdle Buy a)
        (allocations scenarioIdle))) = 600"
    by (simp add: scenarioIdle_def scenario_def on_type_def)
  have sA: "sum_list (map a_amount
      (filter (\<lambda>a. a_member_id a = ''A'' \<and> on_type scenarioIdle Sell a)
        (allocations scenarioIdle))) = 0"
    by (simp add: scenarioIdle_def scenario_def on_type_def)
  from calculateMemberCash_available_cash [OF mA]
  obtain p where "Map_get (calculateMemberCash scenarioIdle) ''A'' = Some p"
    "total_contributions p = 1000" "total_buys p = 600" "total_sells p = 0"
    "available_cash p = total_contributions p - total_buys p + total_sells p"
    unfolding eA cA bA sA by blast
  then have A: "\<exists>p. Map_get (calculateMemberCash scenarioIdle) ''A'' = Some p \<and>
      total_contributions p = 1000 \<and> total_buys p = 600 \<and> total_sells p = 0 \<and>
      available_cash p = 400"
    by simp
  have m: "\<lparr> fm_id = ''C'', fm_name = ''C'' \<rparr> \<in> set (members scenarioIdle)"
    by (simp add: scenarioIdle_def)
  have c: "list_all (\<lambda>c. c_member_id c \<noteq> ''C'') (contributions scenarioIdle)"
    by (simp add: scenarioIdle_def scenario_def)
  have a: "list_all (\<lambda>a. a_member_id a \<noteq> ''C'') (allocations scenarioIdle)"
    by (simp add: scenarioIdle_def scenario_def)
  from calculateMemberCash_available_cash [OF m] c a
  have "\<exists>p. Map_get (calculateMemberCash scenarioIdle) ''C'' = Some p \<and>
      total_contributions p = 0 \<and> total_buys p = 0 \<and> total_sells p = 0 \<and>
      available_cash p = 0"
    by (simp add: list_all_iff) blast
  with mA A m c a show ?thesis by blast
qed

subsection \<open>Shares per member\<close>

lemma Map_get_None_iff: "Map_get m k = None \<longleftrightarrow> k \<notin> fst ` set m"
  by (simp add: Map_get_def map_of_eq_None_iff)

lemma Map_get_distinct:
  "distinct (map fst m) \<Longrightarrow> (k, v) \<in> set m \<Longrightarrow> Map_get m k = Some v"
  by (simp add: Map_get_def)

lemma keys_initialShares: "map fst (initialShares ms) = rev (remdups (rev (map fm_id ms)))"
  unfolding initialShares_def
  by (induction ms rule: rev_induct) (simp_all add: keys_Map_set)

lemma forEach_throw_inv:
  assumes "\<And>s x. I s \<Longrightarrow> x \<in> set xs \<Longrightarrow> P x \<Longrightarrow> \<exists>s'. f s x = Inr s' \<and> I s'"
    and "\<And>s x. I s \<Longrightarrow> x \<in> set xs \<Longrightarrow> \<not> P x \<Longrightarrow> f s x = Inl TypeError"
    and "I s"
  shows "if \<forall>x \<in> set xs. P x then \<exists>s'. forEach_throw f s xs = Inr s' \<and> I s'
         else forEach_throw f s xs = Inl TypeError"
  using assms
proof (induction xs arbitrary: s)
  case Nil
  then show ?case by simp
next
  case (Cons x xs)
  show ?case
  proof (cases "P x")
    case False
    with Cons.prems(2) [OF Cons.prems(3), of x] show ?thesis by auto
  next
    case True
    with Cons.prems(1) [OF Cons.prems(3), of x] obtain s' where s': "f s x = Inr s'" "I s'"
      by auto
    have "if \<forall>x \<in> set xs. P x then \<exists>s''. forEach_throw f s' xs = Inr s'' \<and> I s''
         else forEach_throw f s' xs = Inl TypeError"
      by (rule Cons.IH) (use Cons.prems s' in auto)
    with True s' show ?thesis by auto
  qed
qed

lemma addAllocationShares_keys:
  assumes "map fst sm = K" "a_member_id a \<in> set K"
  shows "\<exists>sm'. addAllocationShares t sm a = Inr sm' \<and> map fst sm' = K"
proof -
  from assms have "a_member_id a \<in> fst ` set sm" by force
  then obtain ms where "Map_get sm (a_member_id a) = Some ms"
    using Map_get_None_iff [of sm "a_member_id a"] by auto
  with assms show ?thesis
    by (simp add: addAllocationShares_def Let_def keys_Map_set)
qed

lemma addAllocationShares_throws:
  assumes "map fst sm = K" "a_member_id a \<notin> set K"
  shows "addAllocationShares t sm a = Inl TypeError"
proof -
  from assms have "a_member_id a \<notin> fst ` set sm" by force
  then have "Map_get sm (a_member_id a) = None" by (simp add: Map_get_None_iff)
  then show ?thesis by (simp add: addAllocationShares_def)
qed

lemma addTransactionShares_cases:
  assumes "map fst sm = K"
  shows "if \<forall>a \<in> set (allocations d). a_transaction_id a = t_id t \<longrightarrow> a_member_id a \<in> set K
         then \<exists>sm'. addTransactionShares d sm t = Inr sm' \<and> map fst sm' = K
         else addTransactionShares d sm t = Inl TypeError"
proof -
  let ?as = "filter (\<lambda>a. a_transaction_id a = t_id t) (allocations d)"
  have "if \<forall>a \<in> set ?as. a_member_id a \<in> set K
        then \<exists>sm'. forEach_throw (addAllocationShares t) sm ?as = Inr sm' \<and> map fst sm' = K
        else forEach_throw (addAllocationShares t) sm ?as = Inl TypeError"
    by (rule forEach_throw_inv [where I = "\<lambda>s. map fst s = K"])
       (use assms in \<open>auto intro: addAllocationShares_keys addAllocationShares_throws\<close>)
  moreover have "(\<forall>a \<in> set ?as. a_member_id a \<in> set K) \<longleftrightarrow>
    (\<forall>a \<in> set (allocations d). a_transaction_id a = t_id t \<longrightarrow> a_member_id a \<in> set K)"
    by auto
  ultimately show ?thesis by (simp add: addTransactionShares_def)
qed

lemma calculateMemberShares_cases:
  "if memberRefsOk d
   then \<exists>sm. calculateMemberShares d = Inr sm \<and> map fst sm = memberIds d
   else calculateMemberShares d = Inl TypeError"
proof -
  let ?K = "memberIds d"
  let ?P = "\<lambda>t :: Transaction. \<forall>a \<in> set (allocations d). a_transaction_id a = t_id t \<longrightarrow> a_member_id a \<in> set ?K"
  have K: "set ?K = fm_id ` set (members d)" by (simp add: memberIds_def)
  have "if \<forall>t \<in> set (transactions d). ?P t
        then \<exists>sm. forEach_throw (addTransactionShares d) (initialShares (members d)) (transactions d) = Inr sm
              \<and> map fst sm = ?K
        else forEach_throw (addTransactionShares d) (initialShares (members d)) (transactions d) = Inl TypeError"
  proof (rule forEach_throw_inv [where I = "\<lambda>s. map fst s = ?K" and P = ?P])
    fix s :: NestedMap and t :: Transaction assume "map fst s = ?K" "?P t"
    with addTransactionShares_cases [of s ?K d t]
    show "\<exists>s'. addTransactionShares d s t = Inr s' \<and> map fst s' = ?K" by simp
  next
    fix s :: NestedMap and t :: Transaction assume "map fst s = ?K" "\<not> ?P t"
    with addTransactionShares_cases [of s ?K d t]
    show "addTransactionShares d s t = Inl TypeError" by simp
  next
    show "map fst (initialShares (members d)) = ?K" by (simp add: keys_initialShares memberIds_def)
  qed
  then show ?thesis by (simp add: calculateMemberShares_def memberRefsOk_def K)
qed

lemma calculateMemberShares_keys:
  "calculateMemberShares d = Inr sm \<Longrightarrow> map fst sm = memberIds d"
  using calculateMemberShares_cases [of d] by (auto split: if_splits)

lemma calculateMemberShares_Inr_iff:
  "(\<exists>sm. calculateMemberShares d = Inr sm) \<longleftrightarrow> memberRefsOk d"
  using calculateMemberShares_cases [of d] by (auto split: if_splits)

lemma distinct_memberIds: "distinct (memberIds d)"
  by (simp add: memberIds_def)

lemma set_memberIds: "set (memberIds d) = fm_id ` set (members d)"
  by (simp add: memberIds_def)


text \<open>The share counts are the net share counts of the specification.\<close>

lemma forEach_throw_sum:
  fixes g :: "'s \<Rightarrow> number"
  assumes "\<And>s x s'. x \<in> set xs \<Longrightarrow> f s x = Inr s' \<Longrightarrow> g s' = g s + h x"
    and "forEach_throw f s xs = Inr s'"
  shows "g s' = g s + sum_list (map h xs)"
  using assms
proof (induction xs arbitrary: s)
  case Nil
  then show ?case by simp
next
  case (Cons x xs)
  from Cons.prems(2) obtain s1 where s1: "f s x = Inr s1" and r: "forEach_throw f s1 xs = Inr s'"
    by (auto split: sum.splits)
  have "g s' = g s1 + sum_list (map h xs)"
    by (rule Cons.IH [OF _ r]) (use Cons.prems(1) in auto)
  moreover have "g s1 = g s + h x" using Cons.prems(1) [OF _ s1] by simp
  ultimately show ?case by simp
qed

lemma addAllocationShares_delta:
  assumes "addAllocationShares t sm a = Inr sm'"
  shows "get2_or0 sm' mId stockId = get2_or0 sm mId stockId + sharesDelta mId stockId t a"
proof -
  from assms obtain ms where ms: "Map_get sm (a_member_id a) = Some ms"
    by (auto simp: addAllocationShares_def split: option.splits)
  with assms have sm': "sm' = Map_set (a_member_id a)
       (Map_set (t_stock_id t)
          (if t_type t = Buy
           then or0 (Map_get ms (t_stock_id t)) + t_quantity t * a_percentage a
           else or0 (Map_get ms (t_stock_id t)) - t_quantity t * a_percentage a) ms) sm"
    by (auto simp: addAllocationShares_def Let_def)
  show ?thesis
    by (simp add: sm' get2_or0_def Map_get_set ms sharesDelta_def or0_def)
qed

lemma addTransactionShares_delta:
  assumes "addTransactionShares d sm t = Inr sm'"
  shows "get2_or0 sm' mId stockId = get2_or0 sm mId stockId +
    sum_list (map (sharesDelta mId stockId t)
      (filter (\<lambda>a. a_transaction_id a = t_id t) (allocations d)))"
  using assms unfolding addTransactionShares_def Let_def
  by (rule forEach_throw_sum [rotated]) (rule addAllocationShares_delta)

lemma initialShares_values: "(k, v) \<in> set (initialShares ms) \<Longrightarrow> v = []"
  unfolding initialShares_def
proof (induction ms arbitrary: k v rule: rev_induct)
  case Nil
  then show ?case by simp
next
  case (snoc m ms)
  have "set (Map_set a b xs) \<subseteq> insert (a, b) (set xs)" for a :: string and b :: "(string, number) Map" and xs
    by (induction xs) auto
  with snoc show ?case by fastforce
qed

lemma get2_or0_initialShares: "get2_or0 (initialShares ms) mId stockId = 0"
proof (cases "Map_get (initialShares ms) mId")
  case None
  then show ?thesis by (simp add: get2_or0_def or0_def)
next
  case (Some v)
  then have "(mId, v) \<in> set (initialShares ms)"
    by (simp add: Map_get_def map_of_SomeD)
  then have "v = []" by (rule initialShares_values)
  with Some show ?thesis by (simp add: get2_or0_def or0_def Map_get_def)
qed

lemma calculateMemberShares_net:
  assumes "calculateMemberShares d = Inr memberShares"
  shows "get2_or0 memberShares mId stockId = netShares d mId stockId"
proof -
  have "get2_or0 memberShares mId stockId =
    get2_or0 (initialShares (members d)) mId stockId +
    sum_list (map (\<lambda>t. sum_list (map (sharesDelta mId stockId t)
                        (filter (\<lambda>a. a_transaction_id a = t_id t) (allocations d))))
      (transactions d))"
    using assms unfolding calculateMemberShares_def
    by (rule forEach_throw_sum [rotated]) (rule addTransactionShares_delta)
  then show ?thesis by (simp add: get2_or0_initialShares netShares_def)
qed

lemma memberRefsOk_shares:
  assumes "memberRefsOk d"
  shows "\<exists>memberShares. calculateMemberShares d = Inr memberShares \<and>
    (\<forall>mId stockId. get2_or0 memberShares mId stockId = netShares d mId stockId)"
proof -
  from assms obtain memberShares where sh: "calculateMemberShares d = Inr memberShares"
    using calculateMemberShares_Inr_iff [of d] by auto
  with calculateMemberShares_net [OF sh] show ?thesis by blast
qed

lemma scenario_refs: "memberRefsOk scenario"
  by (simp add: memberRefsOk_def scenario_def)

lemma scenario_netShares:
  "netShares scenario ''A'' ''X'' = 6" "netShares scenario ''B'' ''X'' = 4"
  by (simp_all add: netShares_def sharesDelta_def scenario_def)

lemma scenario_memberIds: "memberIds scenario = [''A'', ''B'']"
  by (simp add: memberIds_def scenario_def)



lemma scenarioNoPrice_refs: "memberRefsOk scenarioNoPrice"
  by (simp add: memberRefsOk_def scenarioNoPrice_def scenarioIdle_def scenario_def)

lemma scenarioShort_refs: "memberRefsOk scenarioShort"
  by (simp add: memberRefsOk_def scenarioShort_def)

lemma scenarioShort_netShares:
  "netShares scenarioShort ''A'' ''X'' = 10" "netShares scenarioShort ''B'' ''X'' = - 4"
  by (simp_all add: netShares_def sharesDelta_def scenarioShort_def)

subsection \<open>Sell allocations\<close>

lemma foldl_push:
  "foldl (\<lambda>acc x. if P x then acc @ [g x] else acc) acc xs = acc @ map g (filter P xs)"
  by (induction xs arbitrary: acc) simp_all

lemma get2_or0_entry:
  "distinct (map fst sm) \<Longrightarrow> (mid, stockMap) \<in> set sm \<Longrightarrow>
   get2_or0 sm mid sid = or0 (Map_get stockMap sid)"
  by (simp add: get2_or0_def Map_get_distinct)

lemma totalSharesOf_sum:
  assumes "distinct (map fst sm)"
  shows "totalSharesOf sid sm = sum_list (map (\<lambda>mid. get2_or0 sm mid sid) (map fst sm))"
proof -
  have "totalSharesOf sid sm = sum_list (map (\<lambda>(mid, stockMap). or0 (Map_get stockMap sid)) sm)"
    unfolding totalSharesOf_def
    using reduce_sum_aux [of "\<lambda>(mid, stockMap). or0 (Map_get stockMap sid)" 0 sm]
    by (simp add: case_prod_unfold)
  also have "map (\<lambda>(mid, stockMap). or0 (Map_get stockMap sid)) sm =
             map (\<lambda>e. get2_or0 sm (fst e) sid) sm"
    using assms by (auto simp: get2_or0_entry)
  finally show ?thesis by (simp add: comp_def)
qed

lemma sellAllocations_fold:
  assumes "distinct (map fst sm)"
  shows "foldl (\<lambda>allocs (mId, stockMap).
              if or0 (Map_get stockMap sid) > 0
              then allocs @ [\<lparr> sa_member_id = mId,
                     sa_amount = totalAmount * (or0 (Map_get stockMap sid) / tot),
                     sa_percentage = or0 (Map_get stockMap sid) / tot \<rparr>]
              else allocs)
            [] sm =
         map (\<lambda>mid. \<lparr> sa_member_id = mid,
                       sa_amount = totalAmount * (get2_or0 sm mid sid / tot),
                       sa_percentage = get2_or0 sm mid sid / tot \<rparr>)
           (filter (\<lambda>mid. get2_or0 sm mid sid > 0) (map fst sm))"
proof -
  let ?g = "\<lambda>e :: string \<times> (string, number) Map. \<lparr> sa_member_id = fst e,
                       sa_amount = totalAmount * (or0 (Map_get (snd e) sid) / tot),
                       sa_percentage = or0 (Map_get (snd e) sid) / tot \<rparr>"
  let ?P = "\<lambda>e :: string \<times> (string, number) Map. or0 (Map_get (snd e) sid) > 0"
  let ?g' = "\<lambda>mid. \<lparr> sa_member_id = mid,
                       sa_amount = totalAmount * (get2_or0 sm mid sid / tot),
                       sa_percentage = get2_or0 sm mid sid / tot \<rparr>"
  let ?P' = "\<lambda>mid. get2_or0 sm mid sid > 0"
  have "foldl (\<lambda>allocs (mId, stockMap).
              if or0 (Map_get stockMap sid) > 0
              then allocs @ [\<lparr> sa_member_id = mId,
                     sa_amount = totalAmount * (or0 (Map_get stockMap sid) / tot),
                     sa_percentage = or0 (Map_get stockMap sid) / tot \<rparr>]
              else allocs)
            [] sm = foldl (\<lambda>acc x. if ?P x then acc @ [?g x] else acc) [] sm"
    unfolding case_prod_unfold ..
  also have "\<dots> = map ?g (filter ?P sm)" by (simp add: foldl_push)
  also have "filter ?P sm = filter (\<lambda>e. ?P' (fst e)) sm"
    using assms by (intro filter_cong) (auto simp: get2_or0_entry)
  also have "map ?g (filter (\<lambda>e. ?P' (fst e)) sm) = map (\<lambda>e. ?g' (fst e)) (filter (\<lambda>e. ?P' (fst e)) sm)"
    using assms by (intro map_cong) (auto simp: get2_or0_entry)
  also have "\<dots> = map ?g' (filter ?P' (map fst sm))"
    by (simp add: filter_map comp_def)
  finally show ?thesis .
qed

lemma calculateSellAllocations_eq:
  assumes "calculateMemberShares d = Inr memberShares"
  shows "calculateSellAllocations stockId quantity pricePerShare d =
    Inr (if sum_list (map (\<lambda>mid. get2_or0 memberShares mid stockId) (memberIds d)) = 0 then []
         else map (\<lambda>mid. \<lparr> sa_member_id = mid,
                  sa_amount = quantity * pricePerShare *
                    (get2_or0 memberShares mid stockId /
                     sum_list (map (\<lambda>mid. get2_or0 memberShares mid stockId) (memberIds d))),
                  sa_percentage = get2_or0 memberShares mid stockId /
                     sum_list (map (\<lambda>mid. get2_or0 memberShares mid stockId) (memberIds d)) \<rparr>)
                (filter (\<lambda>mid. get2_or0 memberShares mid stockId > 0) (memberIds d)))"
proof -
  from assms have keys: "map fst memberShares = memberIds d"
    by (rule calculateMemberShares_keys)
  then have dist: "distinct (map fst memberShares)" by (simp add: distinct_memberIds)
  show ?thesis
    unfolding calculateSellAllocations_def assms Let_def sum.case
      sellAllocations_fold [OF dist] totalSharesOf_sum [OF dist] keys
    by simp
qed



subsection \<open>Cost basis\<close>

lemma foldl_filter_skip:
  "(\<And>acc x. x \<in> set xs \<Longrightarrow> \<not> P x \<Longrightarrow> f acc x = acc) \<Longrightarrow>
   foldl f acc (filter P xs) = foldl f acc xs"
  by (induction xs arbitrary: acc) simp_all

lemma addAllocationCost_dangling:
  "\<not> knownTransaction d a \<Longrightarrow> addAllocationCost d costBasisMap a = costBasisMap"
proof -
  assume "\<not> knownTransaction d a"
  then have "List.find (\<lambda>t. t_id t = a_transaction_id a) (transactions d) = None"
    by (auto simp: knownTransaction_def find_None_iff)
  then show ?thesis by (simp add: addAllocationCost_def)
qed

lemma addAllocationCost_transactions:
  "transactions d' = transactions d \<Longrightarrow> addAllocationCost d' = addAllocationCost d"
  by (intro ext) (simp add: addAllocationCost_def)

lemma calculateCostBasis_dropDangling:
  "calculateCostBasis (dropDangling d) = calculateCostBasis d"
proof -
  have "foldl (addAllocationCost d) [] (filter (knownTransaction d) (allocations d)) =
        foldl (addAllocationCost d) [] (allocations d)"
    by (rule foldl_filter_skip) (rule addAllocationCost_dangling)
  moreover have "addAllocationCost (dropDangling d) = addAllocationCost d"
    by (rule addAllocationCost_transactions) (simp add: dropDangling_def)
  ultimately show ?thesis by (simp add: calculateCostBasis_def dropDangling_def)
qed

text \<open>
  C9. \<open>calculateCostBasis\<close> skips every allocation whose transaction id matches no
  transaction of the snapshot: its result is the result on the snapshot without those
  allocations. The function has no failing branch.
\<close>

theorem calculateCostBasis_ignores_dangling:
  "calculateCostBasis d = calculateCostBasis (dropDangling d)"
  by (simp add: calculateCostBasis_dropDangling)

theorem calculateCostBasis_ignores_dangling_witness:
  "\<not> list_all (knownTransaction scenarioDangling) (allocations scenarioDangling) \<and>
   dropDangling scenarioDangling = scenario \<and>
   calculateCostBasis scenarioDangling = [(''A'', [(''X'', 600)]), (''B'', [(''X'', 400)])]"
proof -
  have d: "dropDangling scenarioDangling = scenario"
    by (simp add: dropDangling_def scenarioDangling_def scenario_def knownTransaction_def)
  have n: "\<not> list_all (knownTransaction scenarioDangling) (allocations scenarioDangling)"
    by (simp add: scenarioDangling_def scenario_def knownTransaction_def)
  have "calculateCostBasis scenario = [(''A'', [(''X'', 600)]), (''B'', [(''X'', 400)])]"
    by code_simp
  with calculateCostBasis_ignores_dangling [of scenarioDangling] d n show ?thesis by simp
qed

subsection \<open>Portfolio summary\<close>

lemma stockTotals_aux:
  "foldl (\<lambda>(currentStockValue, memberTotalCostBasis) stock.
        (let sharesOwned = or0 (Map_get shares (s_id stock));
             price = or0 (s_current_price stock)
         in (currentStockValue + sharesOwned * price,
             memberTotalCostBasis + or0 (Map_get memberCostBasisMap (s_id stock)))))
      (v, c) ss =
   (v + sum_list (map (\<lambda>stock. or0 (Map_get shares (s_id stock)) * or0 (s_current_price stock)) ss),
    c + sum_list (map (\<lambda>stock. or0 (Map_get memberCostBasisMap (s_id stock))) ss))"
  by (induction ss arbitrary: v c) (simp_all add: Let_def add.assoc)

lemma stockTotals_eq:
  "stockTotals shares memberCostBasisMap ss =
   (sum_list (map (\<lambda>stock. or0 (Map_get shares (s_id stock)) * or0 (s_current_price stock)) ss),
    sum_list (map (\<lambda>stock. or0 (Map_get memberCostBasisMap (s_id stock))) ss))"
  unfolding stockTotals_def stockTotals_aux by simp

lemma memberSummary_Inr:
  assumes "Map_get memberCash (fm_id m) = Some cash"
    and "Map_get memberShares (fm_id m) = Some shares"
  shows "\<exists>s. memberSummary d memberCash memberShares costBasisMap m = Inr s \<and>
    memberId s = fm_id m \<and>
    currentStockValue s =
      sum_list (map (\<lambda>stock. or0 (Map_get shares (s_id stock)) * or0 (s_current_price stock))
        (stocks d)) \<and>
    availableCash s = available_cash cash \<and>
    totalValue s = currentStockValue s + availableCash s \<and>
    gainLoss s = currentStockValue s - costBasis s \<and>
    gainLossPercentage s = (if costBasis s > 0 then (gainLoss s / costBasis s) * 100 else 0)"
  using assms by (simp add: memberSummary_def stockTotals_eq Let_def)

lemma mapMembers_Inr:
  "mapMembers f tc ms = Inr (tc', ss) \<Longrightarrow>
   list_all2 (\<lambda>m s. f m = Inr s) ms ss \<and> tc' = tc + sum_list (map availableCash ss)"
proof (induction ms arbitrary: tc tc' ss)
  case Nil
  then show ?case by simp
next
  case (Cons m ms)
  from Cons.prems obtain s where s: "f m = Inr s"
    by (auto split: sum.splits)
  with Cons.prems obtain ss' where
    r: "mapMembers f (tc + availableCash s) ms = Inr (tc', ss')" and ss: "ss = s # ss'"
    by (auto split: sum.splits)
  from Cons.IH [OF r] s ss show ?case by (simp add: add.assoc)
qed

lemma mapMembers_total:
  "\<forall>m \<in> set ms. \<exists>s. f m = Inr s \<Longrightarrow> \<exists>tc' ss. mapMembers f tc ms = Inr (tc', ss)"
proof (induction ms arbitrary: tc)
  case Nil
  then show ?case by simp
next
  case (Cons m ms)
  then obtain s where s: "f m = Inr s" by auto
  from Cons obtain tc' ss where "mapMembers f (tc + availableCash s) ms = Inr (tc', ss)"
    by fastforce
  with s show ?case by simp
qed

lemma memberSummary_member:
  assumes "calculateMemberShares d = Inr memberShares" and "m \<in> set (members d)"
  shows "\<exists>s cash shares.
    Map_get (calculateMemberCash d) (fm_id m) = Some cash \<and>
    Map_get memberShares (fm_id m) = Some shares \<and>
    memberSummary d (calculateMemberCash d) memberShares (calculateCostBasis d) m = Inr s"
proof -
  from assms(2) have "fm_id m \<in> fm_id ` set (members d)" by simp
  from calculateMemberCash_entry [OF this, of d "[]"]
  obtain cash where cash: "Map_get (calculateMemberCash d) (fm_id m) = Some cash"
    by (auto simp: calculateMemberCash_def)
  from assms have "fm_id m \<in> fst ` set memberShares"
    using calculateMemberShares_keys [OF assms(1)] set_memberIds [of d]
    by (metis image_eqI set_map)
  then obtain shares where shares: "Map_get memberShares (fm_id m) = Some shares"
    using Map_get_None_iff [of memberShares "fm_id m"] by auto
  from memberSummary_Inr [OF cash shares] cash shares show ?thesis by blast
qed

lemma calculatePortfolioSummary_Inr:
  assumes "calculateMemberShares d = Inr memberShares"
  shows "\<exists>ss totalCash.
     mapMembers (memberSummary d (calculateMemberCash d) memberShares (calculateCostBasis d))
       0 (members d) = Inr (totalCash, ss) \<and>
     calculatePortfolioSummary d =
       Inr \<lparr> p_totalValue = sum_list (map totalValue ss),
             p_totalCostBasis = sum_list (map costBasis ss),
             p_totalGainLoss =
               sum_list (map totalValue ss) - totalCash - sum_list (map costBasis ss),
             p_totalGainLossPercentage =
               (if sum_list (map costBasis ss) > 0
                then ((sum_list (map totalValue ss) - totalCash - sum_list (map costBasis ss)) /
                       sum_list (map costBasis ss)) * 100
                else 0),
             p_totalCash = totalCash,
             p_memberBreakdown =
               map (\<lambda>member. member\<lparr> ownershipPercentage :=
                      (if sum_list (map totalValue ss) > 0
                       then (totalValue member / sum_list (map totalValue ss)) * 100 else 0) \<rparr>)
                 ss \<rparr>"
proof -
  let ?f = "memberSummary d (calculateMemberCash d) memberShares (calculateCostBasis d)"
  have "\<forall>m \<in> set (members d). \<exists>s. ?f m = Inr s"
    using memberSummary_member [OF assms] by blast
  from mapMembers_total [OF this, of 0] obtain totalCash ss where
    r: "mapMembers ?f 0 (members d) = Inr (totalCash, ss)" by blast
  have "calculatePortfolioSummary d =
       Inr \<lparr> p_totalValue = sum_list (map totalValue ss),
             p_totalCostBasis = sum_list (map costBasis ss),
             p_totalGainLoss =
               sum_list (map totalValue ss) - totalCash - sum_list (map costBasis ss),
             p_totalGainLossPercentage =
               (if sum_list (map costBasis ss) > 0
                then ((sum_list (map totalValue ss) - totalCash - sum_list (map costBasis ss)) /
                       sum_list (map costBasis ss)) * 100
                else 0),
             p_totalCash = totalCash,
             p_memberBreakdown =
               map (\<lambda>member. member\<lparr> ownershipPercentage :=
                      (if sum_list (map totalValue ss) > 0
                       then (totalValue member / sum_list (map totalValue ss)) * 100 else 0) \<rparr>)
                 ss \<rparr>"
    unfolding calculatePortfolioSummary_def Let_def assms sum.case r prod.case reduce_sum_eq ..
  with r show ?thesis by blast
qed


text \<open>The summary in terms of \<open>ss\<close>, the summaries of the members before the ownership
  percentages are set.\<close>

lemma calculatePortfolioSummary_breakdown:
  assumes "calculateMemberShares d = Inr memberShares"
  obtains s ss where
    "calculatePortfolioSummary d = Inr s"
    "list_all2 (\<lambda>m ms. memberSummary d (calculateMemberCash d) memberShares
        (calculateCostBasis d) m = Inr ms) (members d) ss"
    "p_memberBreakdown s =
       map (\<lambda>member. member\<lparr> ownershipPercentage :=
              (if p_totalValue s > 0 then (totalValue member / p_totalValue s) * 100 else 0) \<rparr>) ss"
    "p_totalValue s = sum_list (map totalValue ss)"
    "p_totalCostBasis s = sum_list (map costBasis ss)"
    "p_totalCash s = sum_list (map availableCash ss)"
    "p_totalGainLoss s = p_totalValue s - p_totalCash s - p_totalCostBasis s"
proof -
  from calculatePortfolioSummary_Inr [OF assms] obtain ss totalCash s where
    r: "mapMembers (memberSummary d (calculateMemberCash d) memberShares (calculateCostBasis d))
       0 (members d) = Inr (totalCash, ss)"
    and s: "calculatePortfolioSummary d = Inr s"
    and s_def: "s = \<lparr> p_totalValue = sum_list (map totalValue ss),
             p_totalCostBasis = sum_list (map costBasis ss),
             p_totalGainLoss =
               sum_list (map totalValue ss) - totalCash - sum_list (map costBasis ss),
             p_totalGainLossPercentage =
               (if sum_list (map costBasis ss) > 0
                then ((sum_list (map totalValue ss) - totalCash - sum_list (map costBasis ss)) /
                       sum_list (map costBasis ss)) * 100
                else 0),
             p_totalCash = totalCash,
             p_memberBreakdown =
               map (\<lambda>member. member\<lparr> ownershipPercentage :=
                      (if sum_list (map totalValue ss) > 0
                       then (totalValue member / sum_list (map totalValue ss)) * 100 else 0) \<rparr>)
                 ss \<rparr>"
    by blast
  from mapMembers_Inr [OF r] have
    l: "list_all2 (\<lambda>m ms. memberSummary d (calculateMemberCash d) memberShares
        (calculateCostBasis d) m = Inr ms) (members d) ss"
    and c: "totalCash = sum_list (map availableCash ss)" by simp_all
  show ?thesis
    by (rule that [OF s l]) (simp_all add: s_def c)
qed





lemma scenario_shares:
  "calculateMemberShares scenario = Inr [(''A'', [(''X'', 6)]), (''B'', [(''X'', 4)])]"
  by code_simp

lemma scenario_summary:
  "calculatePortfolioSummary scenario =
    Inr \<lparr> p_totalValue = 2200, p_totalCostBasis = 1000, p_totalGainLoss = 200,
          p_totalGainLossPercentage = 20, p_totalCash = 1000,
          p_memberBreakdown =
            [\<lparr> memberId = ''A'', memberName = ''A'', totalContributions = 1000,
               currentStockValue = 720, availableCash = 400, totalValue = 1120,
               costBasis = 600, gainLoss = 120, gainLossPercentage = 20,
               ownershipPercentage = 560 / 11 \<rparr>,
             \<lparr> memberId = ''B'', memberName = ''B'', totalContributions = 1000,
               currentStockValue = 480, availableCash = 600, totalValue = 1080,
               costBasis = 400, gainLoss = 80, gainLossPercentage = 20,
               ownershipPercentage = 540 / 11 \<rparr>] \<rparr>"
  by code_simp



lemma memberSummary_arith:
  "memberSummary d memberCash memberShares costBasisMap m = Inr ms \<Longrightarrow>
   totalValue ms = currentStockValue ms + availableCash ms \<and>
   gainLoss ms = currentStockValue ms - costBasis ms \<and>
   gainLossPercentage ms = (if costBasis ms > 0 then (gainLoss ms / costBasis ms) * 100 else 0)"
  by (auto simp: memberSummary_def Let_def split: option.splits prod.splits)







text \<open>
  C8. The scenario of the specification: A holds 6 shares of X and B holds 4; the
  available cash is 400 for A and 600 for B; at the price 120 the stock value is 720 for
  A and 480 for B, the cost basis 600 and 400, the gain 120 and 80.
\<close>

theorem scenario_figures:
  "calculateMemberShares scenario = Inr [(''A'', [(''X'', 6)]), (''B'', [(''X'', 4)])] \<and>
   calculateMemberCash scenario =
     [(''A'', \<lparr> member_id = ''A'', member_name = ''A'', total_contributions = 1000,
               total_buys = 600, total_sells = 0, available_cash = 400 \<rparr>),
      (''B'', \<lparr> member_id = ''B'', member_name = ''B'', total_contributions = 1000,
               total_buys = 400, total_sells = 0, available_cash = 600 \<rparr>)] \<and>
   calculateCostBasis scenario = [(''A'', [(''X'', 600)]), (''B'', [(''X'', 400)])] \<and>
   calculatePortfolioSummary scenario =
    Inr \<lparr> p_totalValue = 2200, p_totalCostBasis = 1000, p_totalGainLoss = 200,
          p_totalGainLossPercentage = 20, p_totalCash = 1000,
          p_memberBreakdown =
            [\<lparr> memberId = ''A'', memberName = ''A'', totalContributions = 1000,
               currentStockValue = 720, availableCash = 400, totalValue = 1120,
               costBasis = 600, gainLoss = 120, gainLossPercentage = 20,
               ownershipPercentage = 560 / 11 \<rparr>,
             \<lparr> memberId = ''B'', memberName = ''B'', totalContributions = 1000,
               currentStockValue = 480, availableCash = 600, totalValue = 1080,
               costBasis = 400, gainLoss = 80, gainLossPercentage = 20,
               ownershipPercentage = 540 / 11 \<rparr>] \<rparr>"
proof -
  have "calculateMemberCash scenario =
     [(''A'', \<lparr> member_id = ''A'', member_name = ''A'', total_contributions = 1000,
               total_buys = 600, total_sells = 0, available_cash = 400 \<rparr>),
      (''B'', \<lparr> member_id = ''B'', member_name = ''B'', total_contributions = 1000,
               total_buys = 400, total_sells = 0, available_cash = 600 \<rparr>)]"
    by code_simp
  moreover have
    "calculateCostBasis scenario = [(''A'', [(''X'', 600)]), (''B'', [(''X'', 400)])]"
    by code_simp
  ultimately show ?thesis
    using scenario_shares scenario_summary by simp
qed

subsection \<open>Unknown prices\<close>

text \<open>The three aggregators do not read the stocks.\<close>

lemma calculateMemberCash_stocks: "calculateMemberCash (d\<lparr> stocks := ss \<rparr>) = calculateMemberCash d"
proof -
  have "memberCashPool (d\<lparr> stocks := ss \<rparr>) = memberCashPool d"
    by (intro ext) (simp add: memberCashPool_def transactionIds_def)
  then show ?thesis by (simp add: calculateMemberCash_def)
qed

lemma calculateMemberShares_stocks:
  "calculateMemberShares (d\<lparr> stocks := ss \<rparr>) = calculateMemberShares d"
proof -
  have "addTransactionShares (d\<lparr> stocks := ss \<rparr>) = addTransactionShares d"
    by (intro ext) (simp add: addTransactionShares_def)
  then show ?thesis by (simp add: calculateMemberShares_def)
qed

lemma calculateCostBasis_stocks: "calculateCostBasis (d\<lparr> stocks := ss \<rparr>) = calculateCostBasis d"
proof -
  have "addAllocationCost (d\<lparr> stocks := ss \<rparr>) = addAllocationCost d"
    by (rule addAllocationCost_transactions) simp
  then show ?thesis by (simp add: calculateCostBasis_def)
qed

lemma stockTotals_nullPricesAsZero:
  "stockTotals shares memberCostBasisMap (stocks (nullPricesAsZero d)) =
   stockTotals shares memberCostBasisMap (stocks d)"
  by (simp add: stockTotals_eq nullPricesAsZero_def comp_def or0_def)

lemma memberSummary_nullPricesAsZero:
  "memberSummary (nullPricesAsZero d) = memberSummary d"
  by (intro ext) (simp only: memberSummary_def stockTotals_nullPricesAsZero)

lemma calculatePortfolioSummary_nullPricesAsZero:
  "calculatePortfolioSummary (nullPricesAsZero d) = calculatePortfolioSummary d"
proof -
  have same:
    "calculateMemberCash (nullPricesAsZero d) = calculateMemberCash d"
    "calculateMemberShares (nullPricesAsZero d) = calculateMemberShares d"
    "calculateCostBasis (nullPricesAsZero d) = calculateCostBasis d"
    "members (nullPricesAsZero d) = members d"
    by (simp_all add: nullPricesAsZero_def calculateMemberCash_stocks
        calculateMemberShares_stocks calculateCostBasis_stocks)
  show ?thesis
    unfolding calculatePortfolioSummary_def same memberSummary_nullPricesAsZero ..
qed

lemma sum_list_known_prices:
  "sum_list (map (\<lambda>stock. g stock * or0 (s_current_price stock)) ss) =
   sum_list (map (\<lambda>stock. g stock * the (s_current_price stock))
     (filter (\<lambda>stock. s_current_price stock \<noteq> None) ss))"
  by (induction ss) (auto simp: or0_def)

lemma memberSummary_stockValue:
  assumes "memberSummary d memberCash memberShares costBasisMap m = Inr ms"
  shows "currentStockValue ms =
    sum_list (map (\<lambda>stock. get2_or0 memberShares (fm_id m) (s_id stock) *
                 the (s_current_price stock))
      (filter (\<lambda>stock. s_current_price stock \<noteq> None) (stocks d)))"
proof -
  from assms obtain shares where sh: "Map_get memberShares (fm_id m) = Some shares"
    by (auto simp: memberSummary_def split: option.splits)
  from assms obtain cash where c: "Map_get memberCash (fm_id m) = Some cash"
    by (auto simp: memberSummary_def split: option.splits)
  from memberSummary_Inr [OF c sh, of d costBasisMap] assms
  have "currentStockValue ms =
      sum_list (map (\<lambda>stock. or0 (Map_get shares (s_id stock)) * or0 (s_current_price stock))
        (stocks d))" by auto
  also have "\<dots> = sum_list (map (\<lambda>stock. get2_or0 memberShares (fm_id m) (s_id stock) *
      or0 (s_current_price stock)) (stocks d))"
    by (simp add: get2_or0_def sh)
  finally show ?thesis by (simp add: sum_list_known_prices)
qed

text \<open>
  C7. A stock whose price is unknown is valued at the price 0. For every snapshot the
  summary is the summary of the snapshot with every unknown price replaced by 0, so an
  unknown price raises no error. In a snapshot whose allocations name members of the
  snapshot, the summary is returned; each member's stock value is the sum, over the
  stocks with a known price only, of the member's net shares times the price; and each
  member's gain percentage is the gain divided by the cost basis times 100 if the cost
  basis is positive, and 0 otherwise.
\<close>

theorem calculatePortfolioSummary_null_price:
  "calculatePortfolioSummary (nullPricesAsZero d) = calculatePortfolioSummary d \<and>
   (memberRefsOk d \<longrightarrow>
     (\<exists>s. calculatePortfolioSummary d = Inr s \<and>
       list_all2 (\<lambda>m ms.
           currentStockValue ms =
             sum_list (map (\<lambda>stock. netShares d (fm_id m) (s_id stock) *
                          the (s_current_price stock))
               (filter (\<lambda>stock. s_current_price stock \<noteq> None) (stocks d))) \<and>
           gainLossPercentage ms =
             (if costBasis ms > 0 then (gainLoss ms / costBasis ms) * 100 else 0))
         (members d) (p_memberBreakdown s)))"
proof -
  have "\<exists>s. calculatePortfolioSummary d = Inr s \<and>
       list_all2 (\<lambda>m ms.
           currentStockValue ms =
             sum_list (map (\<lambda>stock. netShares d (fm_id m) (s_id stock) *
                          the (s_current_price stock))
               (filter (\<lambda>stock. s_current_price stock \<noteq> None) (stocks d))) \<and>
           gainLossPercentage ms =
             (if costBasis ms > 0 then (gainLoss ms / costBasis ms) * 100 else 0))
         (members d) (p_memberBreakdown s)"
    if ok: "memberRefsOk d"
  proof -
    from memberRefsOk_shares [OF ok] obtain memberShares where
      sh: "calculateMemberShares d = Inr memberShares"
      and net: "\<forall>mId stockId. get2_or0 memberShares mId stockId = netShares d mId stockId"
      by blast
    from sh obtain s ss where
      s: "calculatePortfolioSummary d = Inr s"
      and l: "list_all2 (\<lambda>m ms. memberSummary d (calculateMemberCash d) memberShares
          (calculateCostBasis d) m = Inr ms) (members d) ss"
      and b: "p_memberBreakdown s =
         map (\<lambda>member. member\<lparr> ownershipPercentage :=
                (if p_totalValue s > 0 then (totalValue member / p_totalValue s) * 100 else 0) \<rparr>)
           ss"
      by (rule calculatePortfolioSummary_breakdown)
    define P where "P = (\<lambda>(m :: FamilyMember) (ms :: MemberPortfolioSummary).
          currentStockValue ms =
            sum_list (map (\<lambda>stock. netShares d (fm_id m) (s_id stock) *
                         the (s_current_price stock))
              (filter (\<lambda>stock. s_current_price stock \<noteq> None) (stocks d))) \<and>
          gainLossPercentage ms =
            (if costBasis ms > 0 then (gainLoss ms / costBasis ms) * 100 else 0))"
    have "list_all2 P (members d) ss"
      using l unfolding P_def
      by (rule list_all2_mono)
         (simp add: memberSummary_stockValue memberSummary_arith net)
    then have "list_all2 P (members d) (p_memberBreakdown s)"
      unfolding b list_all2_map2
      by (rule list_all2_mono) (simp add: P_def)
    with s show ?thesis unfolding P_def by blast
  qed
  with calculatePortfolioSummary_nullPricesAsZero [of d] show ?thesis by blast
qed

lemma scenarioNoPrice_summary:
  "calculatePortfolioSummary scenarioNoPrice =
    Inr \<lparr> p_totalValue = 1000, p_totalCostBasis = 1000, p_totalGainLoss = - 1000,
          p_totalGainLossPercentage = - 100, p_totalCash = 1000,
          p_memberBreakdown =
            [\<lparr> memberId = ''A'', memberName = ''A'', totalContributions = 1000,
               currentStockValue = 0, availableCash = 400, totalValue = 400,
               costBasis = 600, gainLoss = - 600, gainLossPercentage = - 100,
               ownershipPercentage = 40 \<rparr>,
             \<lparr> memberId = ''B'', memberName = ''B'', totalContributions = 1000,
               currentStockValue = 0, availableCash = 600, totalValue = 600,
               costBasis = 400, gainLoss = - 400, gainLossPercentage = - 100,
               ownershipPercentage = 60 \<rparr>,
             \<lparr> memberId = ''C'', memberName = ''C'', totalContributions = 0,
               currentStockValue = 0, availableCash = 0, totalValue = 0,
               costBasis = 0, gainLoss = 0, gainLossPercentage = 0,
               ownershipPercentage = 0 \<rparr>] \<rparr>"
  by code_simp

theorem calculatePortfolioSummary_null_price_witness:
  "memberRefsOk scenarioNoPrice \<and>
   map s_current_price (stocks scenarioNoPrice) = [None] \<and>
   calculatePortfolioSummary (nullPricesAsZero scenarioNoPrice) =
     calculatePortfolioSummary scenarioNoPrice \<and>
   (\<exists>s. calculatePortfolioSummary scenarioNoPrice = Inr s \<and>
      map currentStockValue (p_memberBreakdown s) = [0, 0, 0] \<and>
      map costBasis (p_memberBreakdown s) = [600, 400, 0] \<and>
      map gainLossPercentage (p_memberBreakdown s) = [- 100, - 100, 0])"
proof -
  have "map s_current_price (stocks scenarioNoPrice) = [None]"
    by (simp add: scenarioNoPrice_def)
  moreover from calculatePortfolioSummary_null_price [of scenarioNoPrice]
  have "calculatePortfolioSummary (nullPricesAsZero scenarioNoPrice) =
     calculatePortfolioSummary scenarioNoPrice" by blast
  moreover from calculatePortfolioSummary_null_price [of scenarioNoPrice]
  have "\<exists>s. calculatePortfolioSummary scenarioNoPrice = Inr s \<and>
      map currentStockValue (p_memberBreakdown s) = [0, 0, 0] \<and>
      map costBasis (p_memberBreakdown s) = [600, 400, 0] \<and>
      map gainLossPercentage (p_memberBreakdown s) = [- 100, - 100, 0]"
    by (simp add: scenarioNoPrice_summary)
  ultimately show ?thesis using scenarioNoPrice_refs by blast
qed

subsection \<open>Ownership of one stock\<close>

lemma addMemberOwnership_fold:
  "foldl (addMemberOwnership stock memberShares costBasisMap) (ts, tc, own) ms =
   (ts + sum_list (map (\<lambda>m. get2_or0 memberShares (fm_id m) (s_id stock))
           (filter (\<lambda>m. get2_or0 memberShares (fm_id m) (s_id stock) > 0) ms)),
    tc + sum_list (map (\<lambda>m. get2_or0 costBasisMap (fm_id m) (s_id stock))
           (filter (\<lambda>m. get2_or0 memberShares (fm_id m) (s_id stock) > 0) ms)),
    own @ map (\<lambda>m. \<lparr> mo_memberId = fm_id m,
                      mo_memberName = fm_name m,
                      mo_shares = get2_or0 memberShares (fm_id m) (s_id stock),
                      mo_value = get2_or0 memberShares (fm_id m) (s_id stock) *
                                 or0 (s_current_price stock),
                      mo_percentage = 0 \<rparr>)
           (filter (\<lambda>m. get2_or0 memberShares (fm_id m) (s_id stock) > 0) ms))"
  by (induction ms arbitrary: ts tc own) (simp_all add: addMemberOwnership_def Let_def add.assoc)


lemma calculateStockWithOwnership_Inr:
  assumes "calculateMemberShares d = Inr memberShares"
  shows "\<exists>so. calculateStockWithOwnership stock d = Inr so \<and>
    sharesOwned so = sum_list (map (\<lambda>m. get2_or0 memberShares (fm_id m) (s_id stock))
           (filter (\<lambda>m. get2_or0 memberShares (fm_id m) (s_id stock) > 0) (members d))) \<and>
    memberOwnership so =
      map (\<lambda>m. \<lparr> mo_memberId = fm_id m,
                      mo_memberName = fm_name m,
                      mo_shares = get2_or0 memberShares (fm_id m) (s_id stock),
                      mo_value = get2_or0 memberShares (fm_id m) (s_id stock) *
                                 or0 (s_current_price stock),
                      mo_percentage =
                        (if sharesOwned so > 0
                         then (get2_or0 memberShares (fm_id m) (s_id stock) / sharesOwned so) * 100
                         else 0) \<rparr>)
           (filter (\<lambda>m. get2_or0 memberShares (fm_id m) (s_id stock) > 0) (members d))"
  unfolding calculateStockWithOwnership_def assms sum.case Let_def addMemberOwnership_fold
    prod.case
  by (simp add: comp_def)







subsection \<open>Sell allocations add up\<close>

lemma sum_list_filter_pos:
  fixes f :: "'a \<Rightarrow> number"
  shows "\<forall>x \<in> set xs. f x \<ge> 0 \<Longrightarrow>
    sum_list (map f (filter (\<lambda>x. f x > 0) xs)) = sum_list (map f xs)"
  by (induction xs) (auto simp: not_less)

lemma sum_list_shares_of_total:
  fixes T :: number
  assumes "T \<noteq> 0" and "sum_list (map f xs) = T"
  shows "sum_list (map (\<lambda>x. f x / T) xs) = 1"
    and "sum_list (map (\<lambda>x. c * (f x / T)) xs) = c"
proof -
  have "sum_list (map (\<lambda>x. f x / T) xs) = sum_list (map (\<lambda>x. f x * (1 / T)) xs)"
    by simp
  also have "\<dots> = sum_list (map f xs) * (1 / T)"
    by (rule sum_list_mult_const)
  finally show one: "sum_list (map (\<lambda>x. f x / T) xs) = 1" using assms by simp
  have "sum_list (map (\<lambda>x. c * (f x / T)) xs) = c * sum_list (map (\<lambda>x. f x / T) xs)"
    by (rule sum_list_const_mult)
  with one show "sum_list (map (\<lambda>x. c * (f x / T)) xs) = c" by simp
qed

lemma calculateSellAllocations_sums:
  assumes "memberRefsOk d"
    and "\<forall>mid \<in> set (memberIds d). netShares d mid stockId \<ge> 0"
    and "sum_list (map (\<lambda>mid. netShares d mid stockId) (memberIds d)) > 0"
  shows "\<exists>r. calculateSellAllocations stockId quantity pricePerShare d = Inr r \<and>
    sum_list (map sa_percentage r) = 1 \<and>
    sum_list (map sa_amount r) = quantity * pricePerShare"
proof -
  from memberRefsOk_shares [OF assms(1)] obtain memberShares where
    sh: "calculateMemberShares d = Inr memberShares"
    and net: "\<forall>mId stockId. get2_or0 memberShares mId stockId = netShares d mId stockId"
    by blast
  let ?sh = "\<lambda>mid. netShares d mid stockId"
  let ?T = "sum_list (map ?sh (memberIds d))"
  let ?pos = "filter (\<lambda>mid. ?sh mid > 0) (memberIds d)"
  let ?r = "map (\<lambda>mid. \<lparr> sa_member_id = mid,
                  sa_amount = quantity * pricePerShare * (?sh mid / ?T),
                  sa_percentage = ?sh mid / ?T \<rparr>) ?pos"
  from assms(3) have nz: "?T \<noteq> 0" by simp
  with calculateSellAllocations_eq [OF sh, of stockId quantity pricePerShare]
  have r: "calculateSellAllocations stockId quantity pricePerShare d = Inr ?r"
    by (simp add: net)
  have T: "sum_list (map ?sh ?pos) = ?T"
    using assms(2) by (rule sum_list_filter_pos)
  have "sum_list (map sa_percentage ?r) = sum_list (map (\<lambda>mid. ?sh mid / ?T) ?pos)"
    by (simp add: comp_def)
  also have "\<dots> = 1" by (rule sum_list_shares_of_total(1) [OF nz T])
  finally have p: "sum_list (map sa_percentage ?r) = 1" .
  have "sum_list (map sa_amount ?r) =
        sum_list (map (\<lambda>mid. quantity * pricePerShare * (?sh mid / ?T)) ?pos)"
    by (simp add: comp_def)
  also have "\<dots> = quantity * pricePerShare" by (rule sum_list_shares_of_total(2) [OF nz T])
  finally have a: "sum_list (map sa_amount ?r) = quantity * pricePerShare" .
  from r p a show ?thesis by blast
qed

lemma scenarioShort_sell:
  "calculateSellAllocations ''X'' 3 100 scenarioShort =
     Inr [\<lparr> sa_member_id = ''A'', sa_amount = 500, sa_percentage = 5 / 3 \<rparr>]"
  by code_simp

text \<open>
  C10. In a snapshot whose allocations name members of the snapshot: if every member's
  net share count of the security is nonnegative and the counts add up to a strictly
  positive total, the entries of \<open>calculateSellAllocations\<close> have percentages that add up
  to 1 and amounts that add up to quantity times price per share. With a negative holder
  this can fail: in the snapshot where A holds 10 and B holds - 4, the only entry has the
  percentage 5 / 3, and a sale worth 300 is allocated 500.
\<close>

theorem calculateSellAllocations_sums_to_total:
  "(\<forall>d stockId quantity pricePerShare.
      memberRefsOk d \<and>
      (\<forall>mid \<in> set (memberIds d). netShares d mid stockId \<ge> 0) \<and>
      sum_list (map (\<lambda>mid. netShares d mid stockId) (memberIds d)) > 0 \<longrightarrow>
      (\<exists>r. calculateSellAllocations stockId quantity pricePerShare d = Inr r \<and>
         sum_list (map sa_percentage r) = 1 \<and>
         sum_list (map sa_amount r) = quantity * pricePerShare)) \<and>
   (\<exists>r. memberRefsOk scenarioShort \<and>
        netShares scenarioShort ''A'' ''X'' = 10 \<and> netShares scenarioShort ''B'' ''X'' = - 4 \<and>
        calculateSellAllocations ''X'' 3 100 scenarioShort = Inr r \<and>
        sum_list (map sa_percentage r) = 5 / 3 \<and>
        sum_list (map sa_amount r) = 500)"
proof -
  have "\<exists>r. memberRefsOk scenarioShort \<and>
        netShares scenarioShort ''A'' ''X'' = 10 \<and> netShares scenarioShort ''B'' ''X'' = - 4 \<and>
        calculateSellAllocations ''X'' 3 100 scenarioShort = Inr r \<and>
        sum_list (map sa_percentage r) = 5 / 3 \<and>
        sum_list (map sa_amount r) = 500"
    by (simp add: scenarioShort_refs scenarioShort_netShares scenarioShort_sell)
  then show ?thesis using calculateSellAllocations_sums by blast
qed

lemma scenario_sell:
  "calculateSellAllocations ''X'' 5 120 scenario =
     Inr [\<lparr> sa_member_id = ''A'', sa_amount = 360, sa_percentage = 3 / 5 \<rparr>,
          \<lparr> sa_member_id = ''B'', sa_amount = 240, sa_percentage = 2 / 5 \<rparr>]"
  by code_simp

theorem calculateSellAllocations_sums_to_total_witness:
  "memberRefsOk scenario \<and>
   list_all (\<lambda>mid. netShares scenario mid ''X'' \<ge> 0) (memberIds scenario) \<and>
   sum_list (map (\<lambda>mid. netShares scenario mid ''X'') (memberIds scenario)) = 10 \<and>
   (\<exists>r. calculateSellAllocations ''X'' 5 120 scenario = Inr r \<and>
      map sa_percentage r = [3 / 5, 2 / 5] \<and>
      sum_list (map sa_percentage r) = 1 \<and>
      sum_list (map sa_amount r) = 5 * 120)"
proof -
  have nn: "list_all (\<lambda>mid. netShares scenario mid ''X'' \<ge> 0) (memberIds scenario)"
    by (simp add: scenario_memberIds scenario_netShares)
  have tot: "sum_list (map (\<lambda>mid. netShares scenario mid ''X'') (memberIds scenario)) = 10"
    by (simp add: scenario_memberIds scenario_netShares)
  have "\<exists>r. calculateSellAllocations ''X'' 5 120 scenario = Inr r \<and>
      sum_list (map sa_percentage r) = 1 \<and>
      sum_list (map sa_amount r) = 5 * 120"
    by (rule calculateSellAllocations_sums_to_total [THEN conjunct1, rule_format, of scenario])
       (use scenario_refs nn tot in \<open>simp add: list_all_iff\<close>)
  then have "\<exists>r. calculateSellAllocations ''X'' 5 120 scenario = Inr r \<and>
      map sa_percentage r = [3 / 5, 2 / 5] \<and>
      sum_list (map sa_percentage r) = 1 \<and>
      sum_list (map sa_amount r) = 5 * 120"
    by (auto simp: scenario_sell)
  with scenario_refs nn tot show ?thesis by blast
qed

subsection \<open>Missing references\<close>

lemma forEach_throw_cong:
  "(\<And>s x. x \<in> set xs \<Longrightarrow> f s x = g s x) \<Longrightarrow> forEach_throw f s xs = forEach_throw g s xs"
  by (induction xs arbitrary: s) (simp_all split: sum.splits)

lemma calculateMemberShares_dropDangling:
  "calculateMemberShares (dropDangling d) = calculateMemberShares d"
proof -
  have "addTransactionShares (dropDangling d) s t = addTransactionShares d s t"
    if "t \<in> set (transactions d)" for s t
  proof -
    have "filter (\<lambda>a. a_transaction_id a = t_id t) (filter (knownTransaction d) (allocations d)) =
          filter (\<lambda>a. a_transaction_id a = t_id t) (allocations d)"
      using that by (auto simp: knownTransaction_def intro!: filter_cong)
    then show ?thesis by (simp add: addTransactionShares_def dropDangling_def)
  qed
  then have "forEach_throw (addTransactionShares (dropDangling d)) (initialShares (members d))
      (transactions d) =
    forEach_throw (addTransactionShares d) (initialShares (members d)) (transactions d)"
    by (rule forEach_throw_cong)
  then show ?thesis by (simp add: calculateMemberShares_def dropDangling_def)
qed

lemma calculateMemberShares_error:
  "calculateMemberShares d = Inl e \<Longrightarrow> e = TypeError"
  using calculateMemberShares_cases [of d] by (auto split: if_splits)

lemma calculatePortfolioSummary_error:
  assumes "calculatePortfolioSummary d = Inl e"
  shows "e = TypeError"
proof (cases "calculateMemberShares d")
  case (Inl e')
  with assms have "e' = e" by (simp add: calculatePortfolioSummary_def)
  with Inl show ?thesis by (simp add: calculateMemberShares_error)
next
  case (Inr memberShares)
  then obtain s where "calculatePortfolioSummary d = Inr s"
    by (rule calculatePortfolioSummary_breakdown)
  with assms show ?thesis by simp
qed

lemma calculateStockWithOwnership_error:
  assumes "calculateStockWithOwnership stock d = Inl e"
  shows "e = TypeError"
proof (cases "calculateMemberShares d")
  case (Inl e')
  with assms have "e' = e" by (simp add: calculateStockWithOwnership_def)
  with Inl show ?thesis by (simp add: calculateMemberShares_error)
next
  case (Inr memberShares)
  from calculateStockWithOwnership_Inr [OF this, of stock] assms show ?thesis by auto
qed

lemma calculateSellAllocations_error:
  assumes "calculateSellAllocations stockId quantity pricePerShare d = Inl e"
  shows "e = TypeError"
proof (cases "calculateMemberShares d")
  case (Inl e')
  with assms have "e' = e" by (simp add: calculateSellAllocations_def)
  with Inl show ?thesis by (simp add: calculateMemberShares_error)
next
  case (Inr memberShares)
  from calculateSellAllocations_eq [OF this, of stockId quantity pricePerShare] assms
  show ?thesis by simp
qed

text \<open>
  C6 (amended). No function of the engine raises \<open>ReferenceNotFound\<close>. An allocation
  whose transaction id matches no transaction changes neither the share counts nor the
  cost bases, and these do not depend on the stocks of the snapshot, so a security id is
  never looked up. Whenever every allocation of a transaction of the snapshot names
  a member of the snapshot, the four functions that can throw return a result: no
  amount, percentage or resulting balance makes them fail. (\<open>calculateMemberCash\<close> and
  \<open>calculateCostBasis\<close> have no failing branch at all.)
\<close>

theorem engine_reference_handling:
  "(\<forall>kind i.
      calculateMemberShares d \<noteq> Inl (ReferenceNotFound kind i) \<and>
      calculatePortfolioSummary d \<noteq> Inl (ReferenceNotFound kind i) \<and>
      calculateStockWithOwnership stock d \<noteq> Inl (ReferenceNotFound kind i) \<and>
      calculateSellAllocations stockId quantity pricePerShare d \<noteq>
        Inl (ReferenceNotFound kind i)) \<and>
   calculateMemberShares (dropDangling d) = calculateMemberShares d \<and>
   calculateCostBasis (dropDangling d) = calculateCostBasis d \<and>
   calculateMemberShares (d\<lparr> stocks := ss \<rparr>) = calculateMemberShares d \<and>
   calculateCostBasis (d\<lparr> stocks := ss \<rparr>) = calculateCostBasis d \<and>
   (memberRefsOk d \<longrightarrow>
      (\<exists>memberShares. calculateMemberShares d = Inr memberShares) \<and>
      (\<exists>s. calculatePortfolioSummary d = Inr s) \<and>
      (\<exists>so. calculateStockWithOwnership stock d = Inr so) \<and>
      (\<exists>r. calculateSellAllocations stockId quantity pricePerShare d = Inr r))"
proof -
  have none: "calculateMemberShares d \<noteq> Inl (ReferenceNotFound kind i) \<and>
      calculatePortfolioSummary d \<noteq> Inl (ReferenceNotFound kind i) \<and>
      calculateStockWithOwnership stock d \<noteq> Inl (ReferenceNotFound kind i) \<and>
      calculateSellAllocations stockId quantity pricePerShare d \<noteq>
        Inl (ReferenceNotFound kind i)" for kind i
    using calculateMemberShares_error [of d "ReferenceNotFound kind i"]
      calculatePortfolioSummary_error [of d "ReferenceNotFound kind i"]
      calculateStockWithOwnership_error [of stock d "ReferenceNotFound kind i"]
      calculateSellAllocations_error [of stockId quantity pricePerShare d
        "ReferenceNotFound kind i"]
    by auto
  have ok: "(\<exists>memberShares. calculateMemberShares d = Inr memberShares) \<and>
      (\<exists>s. calculatePortfolioSummary d = Inr s) \<and>
      (\<exists>so. calculateStockWithOwnership stock d = Inr so) \<and>
      (\<exists>r. calculateSellAllocations stockId quantity pricePerShare d = Inr r)"
    if "memberRefsOk d"
  proof -
    from that obtain memberShares where sh: "calculateMemberShares d = Inr memberShares"
      using calculateMemberShares_Inr_iff [of d] by auto
    from sh obtain s where "calculatePortfolioSummary d = Inr s"
      by (rule calculatePortfolioSummary_breakdown)
    moreover from calculateStockWithOwnership_Inr [OF sh, of stock]
    have "\<exists>so. calculateStockWithOwnership stock d = Inr so" by blast
    moreover from calculateSellAllocations_eq [OF sh, of stockId quantity pricePerShare]
    have "\<exists>r. calculateSellAllocations stockId quantity pricePerShare d = Inr r" by simp
    ultimately show ?thesis using sh by blast
  qed
  from none ok show ?thesis
    by (simp add: calculateMemberShares_dropDangling calculateCostBasis_dropDangling
        calculateMemberShares_stocks calculateCostBasis_stocks)
qed


text \<open>An allocation naming the unknown member Z ends \<open>calculateMemberShares\<close> with a
  \<open>TypeError\<close> and is computed through by \<open>calculateCostBasis\<close>; an allocation naming an
  unknown transaction, and a buy of a security that is not in the snapshot, are computed
  through by both.\<close>

theorem missing_references_raise_no_ReferenceNotFound:
  "calculateMemberShares scenarioUnknownMember = Inl TypeError \<and>
   calculatePortfolioSummary scenarioUnknownMember = Inl TypeError \<and>
   calculateCostBasis scenarioUnknownMember =
     [(''A'', [(''X'', 600)]), (''B'', [(''X'', 400)]), (''Z'', [(''X'', 50)])] \<and>
   calculateMemberShares scenarioDangling =
     Inr [(''A'', [(''X'', 6)]), (''B'', [(''X'', 4)])] \<and>
   calculateCostBasis scenarioDangling = [(''A'', [(''X'', 600)]), (''B'', [(''X'', 400)])] \<and>
   calculateMemberShares scenarioUnknownStock =
     Inr [(''A'', [(''X'', 6)]), (''B'', [(''X'', 4)])] \<and>
   calculateCostBasis scenarioUnknownStock = [(''A'', [(''X'', 600)]), (''B'', [(''X'', 400)])]"
proof -
  have "calculateMemberShares scenarioUnknownMember = Inl TypeError"
    by code_simp
  moreover have "calculatePortfolioSummary scenarioUnknownMember = Inl TypeError"
    by code_simp
  moreover have "calculateCostBasis scenarioUnknownMember =
     [(''A'', [(''X'', 600)]), (''B'', [(''X'', 400)]), (''Z'', [(''X'', 50)])]"
    by code_simp
  moreover have "calculateMemberShares scenarioDangling =
     Inr [(''A'', [(''X'', 6)]), (''B'', [(''X'', 4)])]"
    by code_simp
  moreover have
    "calculateCostBasis scenarioDangling = [(''A'', [(''X'', 600)]), (''B'', [(''X'', 400)])]"
    by code_simp
  moreover have "calculateMemberShares scenarioUnknownStock =
     Inr [(''A'', [(''X'', 6)]), (''B'', [(''X'', 4)])]"
    by code_simp
  moreover have
    "calculateCostBasis scenarioUnknownStock = [(''A'', [(''X'', 600)]), (''B'', [(''X'', 400)])]"
    by code_simp
  ultimately show ?thesis by simp
qed

theorem engine_reference_handling_witness:
  "memberRefsOk scenarioDangling \<and>
   \<not> list_all (knownTransaction scenarioDangling) (allocations scenarioDangling) \<and>
   calculateMemberShares (dropDangling scenarioDangling) =
     Inr [(''A'', [(''X'', 6)]), (''B'', [(''X'', 4)])] \<and>
   calculateMemberShares (scenarioDangling\<lparr> stocks := [] \<rparr>) =
     Inr [(''A'', [(''X'', 6)]), (''B'', [(''X'', 4)])] \<and>
   (\<exists>memberShares. calculateMemberShares scenarioDangling = Inr memberShares) \<and>
   (\<exists>s. calculatePortfolioSummary scenarioDangling = Inr s) \<and>
   (\<exists>so. calculateStockWithOwnership stockX scenarioDangling = Inr so) \<and>
   (\<exists>r. calculateSellAllocations ''X'' 5 120 scenarioDangling = Inr r)"
proof -
  have ok: "memberRefsOk scenarioDangling"
    by (simp add: memberRefsOk_def scenarioDangling_def scenario_def)
  have n: "\<not> list_all (knownTransaction scenarioDangling) (allocations scenarioDangling)"
    by (simp add: scenarioDangling_def scenario_def knownTransaction_def)
  have sh: "calculateMemberShares scenarioDangling =
     Inr [(''A'', [(''X'', 6)]), (''B'', [(''X'', 4)])]"
    by code_simp
  from engine_reference_handling [of scenarioDangling stockX "''X''" 5 120 "[]"] ok n sh
  show ?thesis by simp
qed

end
